theory Spec2Isabelle
  imports Complex_Main
begin

section \<open>Values and exceptions\<close>

text \<open>
  The value that \<open>json.loads\<close> hands to the program. Objects are association lists
  read with \<open>map_of\<close>. Floats are carried in a type parameter: the program never
  computes with them, it only passes them on and prints them.
\<close>

datatype 'f json =
    JNull
  | JBool bool
  | JInt int
  | JFloat 'f
  | JStr string
  | JArr "'f json list"
  | JObj "(string \<times> 'f json) list"

text \<open>
  The exception classes that can surface in the program. \<open>URLError\<close> stands for
  \<open>urllib.error.URLError\<close> and its subclasses and carries \<open>str(e)\<close>; \<open>OSError\<close>
  stands for every other operating-system error.
\<close>

datatype exc =
    URLError string
  | OSError string
  | UnicodeDecodeError
  | UnicodeEncodeError
  | JSONDecodeError
  | ValueError
  | AttributeError
  | IndexError
  | KeyError
  | TypeError

text \<open>The flattened record: a Python dict, kept in insertion order.\<close>

type_synonym 'f flat = "(string \<times> 'f json) list"

definition bind_exc :: "exc + 'a \<Rightarrow> ('a \<Rightarrow> exc + 'b) \<Rightarrow> exc + 'b" where
  "bind_exc m f = (case m of Inl e \<Rightarrow> Inl e | Inr v \<Rightarrow> f v)"

text \<open>\<open>obj.get(key, default)\<close>: only a dict has the method.\<close>

fun py_get :: "'f json \<Rightarrow> string \<Rightarrow> 'f json \<Rightarrow> exc + 'f json" where
  "py_get (JObj kvs) k dflt = Inr (case map_of kvs k of None \<Rightarrow> dflt | Some v \<Rightarrow> v)"
| "py_get _ k dflt = Inl AttributeError"

text \<open>
  \<open>obj[0]\<close>: the first element of a list or the first character of a string, IndexError
  when either is empty, KeyError on a dict (its keys are strings), TypeError otherwise.
\<close>

fun py_index0 :: "'f json \<Rightarrow> exc + 'f json" where
  "py_index0 (JArr []) = Inl IndexError"
| "py_index0 (JArr (x # xs)) = Inr x"
| "py_index0 (JStr []) = Inl IndexError"
| "py_index0 (JStr (c # cs)) = Inr (JStr [c])"
| "py_index0 (JObj kvs) = Inl KeyError"
| "py_index0 _ = Inl TypeError"

text \<open>
  A dict display evaluates its entries from first to last; the first one that raises
  ends the evaluation.
\<close>

fun collect :: "(string \<times> (exc + 'a)) list \<Rightarrow> exc + (string \<times> 'a) list" where
  "collect [] = Inr []"
| "collect ((k, Inl e) # rest) = Inl e"
| "collect ((k, Inr v) # rest) =
     (case collect rest of Inl e \<Rightarrow> Inl e | Inr r \<Rightarrow> Inr ((k, v) # r))"

section \<open>The Flattener\<close>

text \<open>\<open>data.get(k)\<close>\<close>

definition get1 :: "'f json \<Rightarrow> string \<Rightarrow> exc + 'f json" where
  "get1 data k = py_get data k JNull"

text \<open>\<open>data.get(p, {}).get(k)\<close>\<close>

definition get2 :: "'f json \<Rightarrow> string \<Rightarrow> string \<Rightarrow> exc + 'f json" where
  "get2 data p k = bind_exc (py_get data p (JObj [])) (\<lambda>d. py_get d k JNull)"

text \<open>\<open>data.get('weather', [{}])[0].get(k)\<close>\<close>

definition get_weather :: "'f json \<Rightarrow> string \<Rightarrow> exc + 'f json" where
  "get_weather data k =
     bind_exc (py_get data ''weather'' (JArr [JObj []]))
       (\<lambda>w. bind_exc (py_index0 w) (\<lambda>d. py_get d k JNull))"

text \<open>
  \<open>flatten_weather_data\<close>; \<open>now\<close> is the value of \<open>datetime.now().isoformat()\<close> at the
  call.
\<close>

definition flatten_weather_data :: "string \<Rightarrow> 'f json \<Rightarrow> exc + 'f flat" where
  "flatten_weather_data now data = collect
     [(''timestamp'', Inr (JStr now)),
      (''api_timestamp'', get1 data ''dt''),
      (''city_id'', get1 data ''id''),
      (''city_name'', get1 data ''name''),
      (''country'', get2 data ''sys'' ''country''),
      (''lat'', get2 data ''coord'' ''lat''),
      (''lon'', get2 data ''coord'' ''lon''),
      (''timezone'', get1 data ''timezone''),
      (''weather_id'', get_weather data ''id''),
      (''weather_main'', get_weather data ''main''),
      (''weather_description'', get_weather data ''description''),
      (''temp'', get2 data ''main'' ''temp''),
      (''feels_like'', get2 data ''main'' ''feels_like''),
      (''temp_min'', get2 data ''main'' ''temp_min''),
      (''temp_max'', get2 data ''main'' ''temp_max''),
      (''pressure'', get2 data ''main'' ''pressure''),
      (''humidity'', get2 data ''main'' ''humidity''),
      (''sea_level_pressure'', get2 data ''main'' ''sea_level''),
      (''grnd_level_pressure'', get2 data ''main'' ''grnd_level''),
      (''visibility'', get1 data ''visibility''),
      (''wind_speed'', get2 data ''wind'' ''speed''),
      (''wind_direction'', get2 data ''wind'' ''deg''),
      (''clouds_all'', get2 data ''clouds'' ''all''),
      (''sunrise'', get2 data ''sys'' ''sunrise''),
      (''sunset'', get2 data ''sys'' ''sunset'')]"

text \<open>The \<open>fieldnames\<close> list of \<open>append_to_csv\<close>.\<close>

definition fieldnames :: "string list" where
  "fieldnames =
     [''timestamp'', ''api_timestamp'', ''city_id'', ''city_name'', ''country'',
      ''lat'', ''lon'', ''timezone'', ''weather_id'', ''weather_main'',
      ''weather_description'', ''temp'', ''feels_like'', ''temp_min'', ''temp_max'',
      ''pressure'', ''humidity'', ''sea_level_pressure'', ''grnd_level_pressure'',
      ''visibility'', ''wind_speed'', ''wind_direction'', ''clouds_all'',
      ''sunrise'', ''sunset'']"

text \<open>
  The input of the end-to-end example. Its floats are named by the text that Python's
  \<open>repr\<close> gives them.
\<close>

definition danang :: "string json" where
  "danang = JObj
     [(''dt'', JInt 1700000000),
      (''id'', JInt 42),
      (''name'', JStr ''Danang''),
      (''sys'', JObj [(''country'', JStr ''VN''), (''sunrise'', JInt 1), (''sunset'', JInt 2)]),
      (''coord'', JObj [(''lat'', JFloat ''16.05''), (''lon'', JFloat ''108.2'')]),
      (''weather'', JArr [JObj [(''id'', JInt 800), (''main'', JStr ''Clear''),
                                 (''description'', JStr ''clear sky'')]]),
      (''main'', JObj [(''temp'', JFloat ''30.1''), (''feels_like'', JFloat ''33.0''),
                       (''pressure'', JInt 1008), (''humidity'', JInt 70)]),
      (''visibility'', JInt 10000),
      (''wind'', JObj [(''speed'', JFloat ''2.5''), (''deg'', JInt 90)]),
      (''clouds'', JObj [(''all'', JInt 5)]),
      (''timezone'', JInt 25200)]"

section \<open>The Flattener as the specification words it\<close>

text \<open>
  The specification describes a total transform: every lookup yields null when the key,
  the parent object or the array element is absent, and a value that is not an object
  is read as an object without keys.
\<close>

definition member_of :: "'f json \<Rightarrow> string \<Rightarrow> 'f json option" where
  "member_of v k = (case v of JObj kvs \<Rightarrow> map_of kvs k | _ \<Rightarrow> None)"

definition spec_get1 :: "'f json \<Rightarrow> string \<Rightarrow> 'f json" where
  "spec_get1 data k = (case member_of data k of None \<Rightarrow> JNull | Some v \<Rightarrow> v)"

definition spec_get2 :: "'f json \<Rightarrow> string \<Rightarrow> string \<Rightarrow> 'f json" where
  "spec_get2 data p k = (case member_of data p of None \<Rightarrow> JNull | Some d \<Rightarrow> spec_get1 d k)"

fun first_elem :: "'f json \<Rightarrow> 'f json option" where
  "first_elem (JArr (x # xs)) = Some x"
| "first_elem _ = None"

definition spec_weather :: "'f json \<Rightarrow> string \<Rightarrow> 'f json" where
  "spec_weather data k =
     (case member_of data ''weather'' of
        None \<Rightarrow> JNull
      | Some w \<Rightarrow> (case first_elem w of None \<Rightarrow> JNull | Some d \<Rightarrow> spec_get1 d k))"

definition spec_flatten :: "string \<Rightarrow> 'f json \<Rightarrow> 'f flat" where
  "spec_flatten now data =
     [(''timestamp'', JStr now),
      (''api_timestamp'', spec_get1 data ''dt''),
      (''city_id'', spec_get1 data ''id''),
      (''city_name'', spec_get1 data ''name''),
      (''country'', spec_get2 data ''sys'' ''country''),
      (''lat'', spec_get2 data ''coord'' ''lat''),
      (''lon'', spec_get2 data ''coord'' ''lon''),
      (''timezone'', spec_get1 data ''timezone''),
      (''weather_id'', spec_weather data ''id''),
      (''weather_main'', spec_weather data ''main''),
      (''weather_description'', spec_weather data ''description''),
      (''temp'', spec_get2 data ''main'' ''temp''),
      (''feels_like'', spec_get2 data ''main'' ''feels_like''),
      (''temp_min'', spec_get2 data ''main'' ''temp_min''),
      (''temp_max'', spec_get2 data ''main'' ''temp_max''),
      (''pressure'', spec_get2 data ''main'' ''pressure''),
      (''humidity'', spec_get2 data ''main'' ''humidity''),
      (''sea_level_pressure'', spec_get2 data ''main'' ''sea_level''),
      (''grnd_level_pressure'', spec_get2 data ''main'' ''grnd_level''),
      (''visibility'', spec_get1 data ''visibility''),
      (''wind_speed'', spec_get2 data ''wind'' ''speed''),
      (''wind_direction'', spec_get2 data ''wind'' ''deg''),
      (''clouds_all'', spec_get2 data ''clouds'' ''all''),
      (''sunrise'', spec_get2 data ''sys'' ''sunrise''),
      (''sunset'', spec_get2 data ''sys'' ''sunset'')]"

text \<open>
  The inputs on which every \<open>.get\<close> and the \<open>[0]\<close> of the source find the type they
  need: an object at the top, an object under each parent key that is present, and a
  list that starts with an object under \<open>weather\<close> when that key is present.
\<close>

fun is_obj :: "'f json \<Rightarrow> bool" where
  "is_obj (JObj kvs) = True"
| "is_obj _ = False"

definition parent_ok :: "'f json \<Rightarrow> string \<Rightarrow> bool" where
  "parent_ok data p = (case member_of data p of None \<Rightarrow> True | Some d \<Rightarrow> is_obj d)"

definition weather_ok :: "'f json \<Rightarrow> bool" where
  "weather_ok data =
     (case member_of data ''weather'' of
        None \<Rightarrow> True
      | Some w \<Rightarrow> (case first_elem w of None \<Rightarrow> False | Some d \<Rightarrow> is_obj d))"

definition well_shaped :: "'f json \<Rightarrow> bool" where
  "well_shaped data =
     (is_obj data \<and> parent_ok data ''sys'' \<and> parent_ok data ''coord''
      \<and> parent_ok data ''main'' \<and> parent_ok data ''wind'' \<and> parent_ok data ''clouds''
      \<and> weather_ok data)"

text \<open>A flattened record with its \<open>timestamp\<close> entry removed.\<close>

definition without_timestamp :: "'f flat \<Rightarrow> 'f flat" where
  "without_timestamp r = filter (\<lambda>kv. fst kv \<noteq> ''timestamp'') r"

definition untimed :: "exc + 'f flat \<Rightarrow> exc + 'f flat" where
  "untimed res = map_sum id without_timestamp res"

section \<open>The platform and the world\<close>

text \<open>
  What the program takes from outside its own source: the environment variables, the
  network (\<open>urlopen(url)\<close> followed by \<open>response.read()\<close>), the UTF-8 decoder and the
  JSON parser (\<open>None\<close> where they raise), the clock, and how Python prints a float, a
  list or a dict. For the output file: the exception that \<open>open(path, 'a')\<close> raises,
  if any, which texts the file's encoding can encode (\<open>open\<close> is given no encoding,
  so it is the locale's), whether the device takes the data when the file is closed, and
  what part of the pending text a device that does not take it keeps. For the standard
  output: which texts its encoding can encode (the error stream replaces what it cannot
  encode). The standard streams themselves are taken to be open.
\<close>

record 'f platform =
  getenv :: "string \<rightharpoonup> string"
  urlopen_read :: "string \<Rightarrow> exc + string"
  decode_utf8 :: "string \<Rightarrow> string option"
  json_loads :: "string \<Rightarrow> 'f json option"
  now_iso :: string
  now_year :: nat
  open_error :: "string \<rightharpoonup> exc"
  encodable :: "string \<Rightarrow> bool"
  device_full :: "string \<Rightarrow> bool"
  torn :: "string \<Rightarrow> string"
  stdout_encodable :: "string \<Rightarrow> bool"
  str_float :: "'f \<Rightarrow> string"
  str_container :: "'f json \<Rightarrow> string"

text \<open>
  What the program changes: the regular files, the two output streams, and the requests
  it has sent, in order.
\<close>

record world =
  files :: "string \<rightharpoonup> string"
  stdout :: "string list"
  stderr :: "string list"
  requests :: "string list"

text \<open>
  How a call ends: it returns, an exception leaves it, or \<open>sys.exit(n)\<close> ends the
  process.
\<close>

datatype 'a result = Return 'a | Raise exc | SysExit int

text \<open>
  The exit status of the process: 0 when \<open>main\<close> returns, the argument of
  \<open>sys.exit\<close>, and 1 when an exception is not caught.
\<close>

fun exit_code :: "'a result \<Rightarrow> int" where
  "exit_code (Return v) = 0"
| "exit_code (SysExit n) = n"
| "exit_code (Raise e) = 1"

text \<open>\<open>print(text)\<close> to the standard output, whose error handler is strict.\<close>

definition py_print :: "'f platform \<Rightarrow> string \<Rightarrow> world \<Rightarrow> unit result \<times> world" where
  "py_print P text w =
     (if stdout_encodable P text then (Return (), w\<lparr>stdout := stdout w @ [text]\<rparr>)
      else (Raise UnicodeEncodeError, w))"

section \<open>Printing values\<close>

definition digit_char :: "nat \<Rightarrow> char" where
  "digit_char d = ''0123456789'' ! d"

fun str_nat :: "nat \<Rightarrow> string" where
  "str_nat n = (if n < 10 then [digit_char n] else str_nat (n div 10) @ [digit_char (n mod 10)])"

declare str_nat.simps [simp del]

definition str_int :: "int \<Rightarrow> string" where
  "str_int i = (if i < 0 then CHR ''-'' # str_nat (nat (- i)) else str_nat (nat i))"

text \<open>\<open>str(v)\<close>, which is also what an f-string field \<open>{v}\<close> prints.\<close>

fun py_str :: "'f platform \<Rightarrow> 'f json \<Rightarrow> string" where
  "py_str P JNull = ''None''"
| "py_str P (JBool b) = (if b then ''True'' else ''False'')"
| "py_str P (JInt i) = str_int i"
| "py_str P (JFloat x) = str_float P x"
| "py_str P (JStr s) = s"
| "py_str P (JArr xs) = str_container P (JArr xs)"
| "py_str P (JObj kvs) = str_container P (JObj kvs)"

section \<open>The Fetcher\<close>

text \<open>\<open>urlopen(url)\<close> and \<open>response.read()\<close>: one request goes out, whatever its end.\<close>

definition urlopen :: "'f platform \<Rightarrow> string \<Rightarrow> world \<Rightarrow> (exc + string) \<times> world" where
  "urlopen P url w = (urlopen_read P url, w\<lparr>requests := requests w @ [url]\<rparr>)"

text \<open>
  The body of the \<open>try\<close> statement: \<open>bytes.decode\<close> raises UnicodeDecodeError and
  \<open>json.loads\<close> raises JSONDecodeError; both are subclasses of ValueError.
\<close>

definition fetch_body :: "'f platform \<Rightarrow> string \<Rightarrow> world \<Rightarrow> (exc + 'f json) \<times> world" where
  "fetch_body P url w =
     (case urlopen P url w of
        (reply, w1) \<Rightarrow>
          (bind_exc reply (\<lambda>body.
             case decode_utf8 P body of
               None \<Rightarrow> Inl UnicodeDecodeError
             | Some text \<Rightarrow>
                 (case json_loads P text of
                    None \<Rightarrow> Inl JSONDecodeError
                  | Some data \<Rightarrow> Inr data)),
           w1))"

fun is_URLError :: "exc \<Rightarrow> bool" where
  "is_URLError (URLError msg) = True"
| "is_URLError e = False"

text \<open>The \<open>except URLError\<close> clause.\<close>

fun handler :: "exc \<Rightarrow> world \<Rightarrow> 'a result \<times> world" where
  "handler (URLError msg) w =
     (SysExit 1, w\<lparr>stderr := stderr w @ [''Error fetching data: '' @ msg]\<rparr>)"
| "handler e w = (Raise e, w)"

definition fetch_weather_data :: "'f platform \<Rightarrow> string \<Rightarrow> world \<Rightarrow> 'f json result \<times> world" where
  "fetch_weather_data P url w =
     (case fetch_body P url w of
        (Inr data, w1) \<Rightarrow> (Return data, w1)
      | (Inl e, w1) \<Rightarrow> handler e w1)"

section \<open>The Writer\<close>

text \<open>
  The \<open>csv\<close> module with its default dialect: fields separated by a comma, rows ended
  by CR LF, a field quoted only when it holds a comma, a quote, CR or LF, a quote inside
  a quoted field doubled. \<open>None\<close> is written as the empty field, a string as it is,
  anything else through \<open>str\<close>.
\<close>

definition dquote :: char where
  "dquote = CHR 0x22"

definition crlf :: string where
  "crlf = [CHR 0x0D, CHR 0x0A]"

definition special :: "char \<Rightarrow> bool" where
  "special c = (c = CHR '','' \<or> c = dquote \<or> c = CHR 0x0D \<or> c = CHR 0x0A)"

definition csv_quote :: "string \<Rightarrow> string" where
  "csv_quote s =
     (if list_ex special s
      then dquote # concat (map (\<lambda>c. if c = dquote then [c, c] else [c]) s) @ [dquote]
      else s)"

definition csv_field :: "'f platform \<Rightarrow> 'f json \<Rightarrow> string" where
  "csv_field P v = csv_quote (case v of JNull \<Rightarrow> [] | _ \<Rightarrow> py_str P v)"

fun join_with :: "string \<Rightarrow> string list \<Rightarrow> string" where
  "join_with sep [] = []"
| "join_with sep [x] = x"
| "join_with sep (x # y # ys) = x @ sep @ join_with sep (y # ys)"

text \<open>\<open>csv.writer.writerow\<close> on a row of more than one field.\<close>

definition writer_writerow :: "'f platform \<Rightarrow> 'f json list \<Rightarrow> string" where
  "writer_writerow P row = join_with '','' (map (csv_field P) row) @ crlf"

text \<open>
  \<open>DictWriter._dict_to_list\<close> with \<open>extrasaction='raise'\<close> and \<open>restval=''\<close>: a key
  outside \<open>fieldnames\<close> raises ValueError, a field without a key is the empty string.
\<close>

definition restval_get :: "'f flat \<Rightarrow> string \<Rightarrow> 'f json" where
  "restval_get rowdict k = (case map_of rowdict k of None \<Rightarrow> JStr [] | Some v \<Rightarrow> v)"

definition dict_to_list :: "'f flat \<Rightarrow> exc + 'f json list" where
  "dict_to_list rowdict =
     (if list_all (\<lambda>k. k \<in> set fieldnames) (map fst rowdict)
      then Inr (map (restval_get rowdict) fieldnames)
      else Inl ValueError)"

text \<open>\<open>DictWriter.writeheader\<close>: the row of the field names themselves.\<close>

definition writeheader :: "'f platform \<Rightarrow> string" where
  "writeheader P = writer_writerow P (map JStr fieldnames)"

text \<open>
  The body of the \<open>with\<close> statement: the text handed to the file and the exception that
  ended the body, if any. \<open>writeheader\<close> and \<open>writerow\<close> each hand one text to the
  file's \<open>write\<close>, which encodes it at once: a text the encoding cannot encode raises
  UnicodeEncodeError and none of it is kept, while what was handed over before stays.
\<close>

definition with_body :: "'f platform \<Rightarrow> bool \<Rightarrow> 'f flat \<Rightarrow> string \<times> exc option" where
  "with_body P file_exists data =
     (if \<not> file_exists \<and> \<not> encodable P (writeheader P) then ([], Some UnicodeEncodeError)
      else
        let pending = (if file_exists then [] else writeheader P)
        in case dict_to_list data of
             Inl e \<Rightarrow> (pending, Some e)
           | Inr row \<Rightarrow>
               (if encodable P (writer_writerow P row)
                then (pending @ writer_writerow P row, None)
                else (pending, Some UnicodeEncodeError)))"

text \<open>
  \<open>append_to_csv\<close>. The file is tested with \<open>os.path.isfile\<close>, then opened for
  appending, which creates it. Leaving the \<open>with\<close> statement closes the file, also when
  its body raised, and the pending text goes to the device: a device that does not take
  it raises OSError and keeps what the platform says. The line on the standard output is
  printed after the file is closed.
\<close>

definition append_to_csv :: "'f platform \<Rightarrow> 'f flat \<Rightarrow> string \<Rightarrow> world \<Rightarrow> unit result \<times> world" where
  "append_to_csv P data csv_path w =
     (let file_exists = (files w csv_path \<noteq> None) in
      case open_error P csv_path of
        Some e \<Rightarrow> (Raise e, w)
      | None \<Rightarrow>
          let old = (case files w csv_path of None \<Rightarrow> [] | Some text \<Rightarrow> text)
          in case with_body P file_exists data of
               (pending, failure) \<Rightarrow>
                 if device_full P csv_path \<and> pending \<noteq> []
                 then (Raise (OSError csv_path),
                       w\<lparr>files := (files w)(csv_path \<mapsto> old @ torn P pending)\<rparr>)
                 else
                   (case failure of
                      Some e \<Rightarrow>
                        (Raise e, w\<lparr>files := (files w)(csv_path \<mapsto> old @ pending)\<rparr>)
                    | None \<Rightarrow>
                        py_print P (''Weather data appended to '' @ csv_path)
                          (w\<lparr>files := (files w)(csv_path \<mapsto> old @ pending)\<rparr>)))"

text \<open>The text of the data row of a record.\<close>

definition data_row :: "'f platform \<Rightarrow> 'f flat \<Rightarrow> string" where
  "data_row P data = writer_writerow P (map (restval_get data) fieldnames)"

section \<open>Reading rows back\<close>

text \<open>
  What a CSV reader of the same dialect makes of a text: the fields of its first record
  and the text after it. It gives the meaning of "the fields of a row" and "the rows of
  a file" in the properties of the Writer.
\<close>

datatype rstate = Start | Unquoted | Quoted | AfterQuote

fun eat_lf :: "string \<Rightarrow> string" where
  "eat_lf [] = []"
| "eat_lf (c # cs) = (if c = CHR 0x0A then cs else c # cs)"

definition put_field :: "string \<Rightarrow> (string list \<times> string) option \<Rightarrow> (string list \<times> string) option" where
  "put_field f r = map_option (\<lambda>(fs, rest). (f # fs, rest)) r"

fun read_record :: "rstate \<Rightarrow> string \<Rightarrow> string \<Rightarrow> (string list \<times> string) option" where
  "read_record Quoted cur [] = None"
| "read_record st cur [] = Some ([cur], [])"
| "read_record Quoted cur (c # cs) =
     (if c = dquote then read_record AfterQuote cur cs
      else read_record Quoted (cur @ [c]) cs)"
| "read_record AfterQuote cur (c # cs) =
     (if c = dquote then read_record Quoted (cur @ [c]) cs
      else if c = CHR '','' then put_field cur (read_record Start [] cs)
      else if c = CHR 0x0D then Some ([cur], eat_lf cs)
      else if c = CHR 0x0A then Some ([cur], cs)
      else read_record Unquoted (cur @ [c]) cs)"
| "read_record Start cur (c # cs) =
     (if c = dquote then read_record Quoted cur cs
      else if c = CHR '','' then put_field cur (read_record Start [] cs)
      else if c = CHR 0x0D then Some ([cur], eat_lf cs)
      else if c = CHR 0x0A then Some ([cur], cs)
      else read_record Unquoted (cur @ [c]) cs)"
| "read_record Unquoted cur (c # cs) =
     (if c = CHR '','' then put_field cur (read_record Start [] cs)
      else if c = CHR 0x0D then Some ([cur], eat_lf cs)
      else if c = CHR 0x0A then Some ([cur], cs)
      else read_record Unquoted (cur @ [c]) cs)"

text \<open>The first \<open>n\<close> records of a text, and the text after them.\<close>

fun read_records :: "nat \<Rightarrow> string \<Rightarrow> (string list list \<times> string) option" where
  "read_records 0 text = Some ([], text)"
| "read_records (Suc n) text =
     (case read_record Start [] text of
        None \<Rightarrow> None
      | Some (fs, rest) \<Rightarrow>
          (case read_records n rest of
             None \<Rightarrow> None
           | Some (rows, left) \<Rightarrow> Some (fs # rows, left)))"

text \<open>
  The field the specification asks for: the empty field for null and for a field the
  record has no key for; the text itself for a string; what \<open>str\<close> prints for anything
  else.
\<close>

fun spec_cell :: "'f platform \<Rightarrow> 'f json option \<Rightarrow> string" where
  "spec_cell P None = []"
| "spec_cell P (Some JNull) = []"
| "spec_cell P (Some (JStr s)) = s"
| "spec_cell P (Some (JInt n)) = str_int n"
| "spec_cell P (Some (JBool b)) = (if b then ''True'' else ''False'')"
| "spec_cell P (Some (JFloat x)) = str_float P x"
| "spec_cell P (Some (JArr xs)) = str_container P (JArr xs)"
| "spec_cell P (Some (JObj kvs)) = str_container P (JObj kvs)"

definition spec_row :: "'f platform \<Rightarrow> 'f flat \<Rightarrow> string list" where
  "spec_row P data = map (\<lambda>k. spec_cell P (map_of data k)) fieldnames"

section \<open>The file name and the main program\<close>

text \<open>\<open>data.get(k)\<close> on the flattened record.\<close>

definition flat_get :: "'f flat \<Rightarrow> string \<Rightarrow> 'f json" where
  "flat_get data k = (case map_of data k of None \<Rightarrow> JNull | Some v \<Rightarrow> v)"

definition get_csv_filename :: "'f platform \<Rightarrow> 'f flat \<Rightarrow> string" where
  "get_csv_filename P data =
     (let lat = flat_get data ''lat'';
          lon = flat_get data ''lon'';
          year = now_year P
      in str_nat year @ ''-'' @ py_str P lat @ ''-'' @ py_str P lon @ ''.csv'')"

text \<open>\<open>os.getenv(name, default)\<close>\<close>

definition getenv_default :: "'f platform \<Rightarrow> string \<Rightarrow> string \<Rightarrow> string" where
  "getenv_default P name dflt = (case getenv P name of None \<Rightarrow> dflt | Some v \<Rightarrow> v)"

text \<open>Truth of an optional string: \<open>None\<close> and the empty string are false.\<close>

fun truthy :: "string option \<Rightarrow> bool" where
  "truthy None = False"
| "truthy (Some s) = (s \<noteq> [])"

definition api_url :: "'f platform \<Rightarrow> string" where
  "api_url P =
     (let api_key = getenv P ''WEATHER_API_KEY'';
          lat = getenv_default P ''WEATHER_LAT'' ''16.0544'';
          lon = getenv_default P ''WEATHER_LON'' ''108.2022''
      in if truthy api_key
         then ''https://api.openweathermap.org/data/2.5/weather?lat='' @ lat @ ''&lon='' @ lon
              @ ''&appid='' @ the api_key
         else ''https://api.openweathermap.org/data/2.5/weather?lat=16.0544&lon=108.2022&appid=d16c000ae5dc1648b49213b3311a43dd'')"

text \<open>\<open>os.getenv('CSV_OUTPUT_PATH') or get_csv_filename(flat_data)\<close>\<close>

definition csv_path_of :: "'f platform \<Rightarrow> 'f flat \<Rightarrow> string" where
  "csv_path_of P flat_data =
     (let configured = getenv P ''CSV_OUTPUT_PATH''
      in if truthy configured then the configured else get_csv_filename P flat_data)"

definition main :: "'f platform \<Rightarrow> world \<Rightarrow> unit result \<times> world" where
  "main P w =
     (case py_print P ''Fetching weather data...'' w of
        (Raise e, w1) \<Rightarrow> (Raise e, w1)
      | (SysExit n, w1) \<Rightarrow> (SysExit n, w1)
      | (Return u, w1) \<Rightarrow>
          (case fetch_weather_data P (api_url P) w1 of
             (Raise e, w2) \<Rightarrow> (Raise e, w2)
           | (SysExit n, w2) \<Rightarrow> (SysExit n, w2)
           | (Return weather_data, w2) \<Rightarrow>
               (case flatten_weather_data (now_iso P) weather_data of
                  Inl e \<Rightarrow> (Raise e, w2)
                | Inr flat_data \<Rightarrow> append_to_csv P flat_data (csv_path_of P flat_data) w2)))"

section \<open>Concrete platforms and worlds\<close>

text \<open>A server that answers every request with the given body.\<close>

definition serves :: "string \<Rightarrow> string \<Rightarrow> exc + string" where
  "serves body url = Inr body"

text \<open>A request that ends in the given exception.\<close>

definition serves_error :: "exc \<Rightarrow> string \<Rightarrow> exc + string" where
  "serves_error e url = Inl e"

text \<open>A host that refuses the connection.\<close>

definition refuses :: "string \<Rightarrow> exc + string" where
  "refuses url = Inl (URLError ''<urlopen error [Errno 111] Connection refused>'')"

text \<open>\<open>json.loads\<close> on the two bodies used below: the empty object, and a page of HTML.\<close>

definition loads_empty_object :: "string \<Rightarrow> string json option" where
  "loads_empty_object text = (if text = ''{}'' then Some (JObj []) else None)"

definition nowhere :: "string \<Rightarrow> bool" where
  "nowhere path = False"

text \<open>The texts an ASCII encoding can encode.\<close>

definition ascii_only :: "string \<Rightarrow> bool" where
  "ascii_only text = list_all (\<lambda>c. of_char c < (128 :: nat)) text"

definition no_container :: "string json \<Rightarrow> string" where
  "no_container v = ''[]''"

definition lab :: "string platform" where
  "lab = \<lparr>getenv = Map.empty,
          urlopen_read = serves ''{}'',
          decode_utf8 = Some,
          json_loads = loads_empty_object,
          now_iso = ''2026-11-03T09:30:00'',
          now_year = 2026,
          open_error = Map.empty,
          encodable = ascii_only,
          device_full = nowhere,
          torn = id,
          stdout_encodable = ascii_only,
          str_float = id,
          str_container = no_container\<rparr>"

definition danang_reply :: "string flat" where
  "danang_reply = spec_flatten ''2026-11-03T09:30:00'' danang"

text \<open>
  A reply whose city name holds a comma and quotes, and one whose city name is not
  ASCII (the two bytes of a UTF-8 letter).
\<close>

definition washington :: "string json" where
  "washington = JObj
     [(''dt'', JInt 1700000600),
      (''name'', JStr (''Washington, '' @ [dquote] @ ''D.C.'' @ [dquote])),
      (''coord'', JObj [(''lat'', JFloat ''38.9''), (''lon'', JFloat ''-77.04'')]),
      (''timezone'', JInt (- 18000))]"

definition washington_reply :: "string flat" where
  "washington_reply = spec_flatten ''2026-11-03T09:40:00'' washington"

definition accented_reply :: "string flat" where
  "accented_reply =
     spec_flatten ''2026-11-03T09:50:00'' (JObj [(''name'', JStr [CHR 0xC3, CHR 0xA9])])"

definition blank :: world where
  "blank = \<lparr>files = Map.empty, stdout = [], stderr = [], requests = []\<rparr>"

definition offline :: "string platform" where
  "offline = lab\<lparr>urlopen_read := refuses\<rparr>"

definition html_page :: "string platform" where
  "html_page = lab\<lparr>urlopen_read := serves ''<html>''\<rparr>"

definition latin1_page :: "string platform" where
  "latin1_page = lab\<lparr>decode_utf8 := Map.empty\<rparr>"

definition reset_by_peer :: "string platform" where
  "reset_by_peer = lab\<lparr>urlopen_read := serves_error (OSError ''[Errno 104] Connection reset by peer'')\<rparr>"

definition path_configured :: "string platform" where
  "path_configured = lab\<lparr>getenv := [''CSV_OUTPUT_PATH'' \<mapsto> ''data/danang.csv'']\<rparr>"

definition path_set_empty :: "string platform" where
  "path_set_empty = lab\<lparr>getenv := [''CSV_OUTPUT_PATH'' \<mapsto> []]\<rparr>"

section \<open>Lemmas on the Flattener\<close>

lemma get1_obj: "get1 (JObj kvs) k = Inr (spec_get1 (JObj kvs) k)"
  by (simp add: get1_def spec_get1_def member_of_def)

lemma get2_obj:
  assumes "parent_ok (JObj kvs) p"
  shows "get2 (JObj kvs) p k = Inr (spec_get2 (JObj kvs) p k)"
proof (cases "map_of kvs p")
  case None
  then show ?thesis
    by (simp add: get2_def spec_get2_def member_of_def bind_exc_def)
next
  case (Some d)
  with assms have "is_obj d"
    by (simp add: parent_ok_def member_of_def)
  then obtain inner where "d = JObj inner"
    by (cases d) simp_all
  with Some show ?thesis
    by (simp add: get2_def spec_get2_def spec_get1_def member_of_def bind_exc_def)
qed

lemma get_weather_obj:
  assumes "weather_ok (JObj kvs)"
  shows "get_weather (JObj kvs) k = Inr (spec_weather (JObj kvs) k)"
proof (cases "map_of kvs ''weather''")
  case None
  then show ?thesis
    by (simp add: get_weather_def spec_weather_def member_of_def bind_exc_def)
next
  case (Some w)
  with assms obtain d where fe: "first_elem w = Some d" and "is_obj d"
    by (auto simp: weather_ok_def member_of_def split: option.splits)
  from fe obtain xs where w: "w = JArr (d # xs)"
    by (auto elim: first_elem.elims)
  from \<open>is_obj d\<close> obtain inner where "d = JObj inner"
    by (cases d) simp_all
  with Some w show ?thesis
    by (simp add: get_weather_def spec_weather_def spec_get1_def member_of_def bind_exc_def)
qed

lemma flatten_refines:
  assumes "well_shaped data"
  shows "flatten_weather_data now data = Inr (spec_flatten now data)"
proof -
  from assms obtain kvs where d: "data = JObj kvs"
    by (cases data) (simp_all add: well_shaped_def)
  from assms have p: "parent_ok (JObj kvs) ''sys''" "parent_ok (JObj kvs) ''coord''"
    "parent_ok (JObj kvs) ''main''" "parent_ok (JObj kvs) ''wind''"
    "parent_ok (JObj kvs) ''clouds''" "weather_ok (JObj kvs)"
    by (simp_all add: well_shaped_def d)
  show ?thesis
    unfolding d flatten_weather_data_def spec_flatten_def
    by (simp add: get1_obj get2_obj [OF p(1)] get2_obj [OF p(2)] get2_obj [OF p(3)]
        get2_obj [OF p(4)] get2_obj [OF p(5)] get_weather_obj [OF p(6)])
qed

lemma flatten_not_obj:
  "\<not> is_obj data \<Longrightarrow> flatten_weather_data now data = Inl AttributeError"
  by (cases data) (simp_all add: flatten_weather_data_def get1_def)

lemma spec_flatten_keys: "map fst (spec_flatten now data) = fieldnames"
  by (simp add: spec_flatten_def fieldnames_def)

lemma well_shaped_danang: "well_shaped danang"
  by (simp add: well_shaped_def danang_def parent_ok_def weather_ok_def member_of_def)

lemma collect_keys: "collect xs = Inr r \<Longrightarrow> map fst r = map fst xs"
  by (induction xs arbitrary: r rule: collect.induct) (auto split: sum.splits)

lemma flatten_keys: "flatten_weather_data now data = Inr r \<Longrightarrow> map fst r = fieldnames"
  unfolding flatten_weather_data_def by (drule collect_keys) (simp add: fieldnames_def)

lemma distinct_fieldnames: "distinct fieldnames"
  by (simp add: fieldnames_def)

lemma length_fieldnames: "length fieldnames = 25"
  by (simp add: fieldnames_def)

lemma values_in_key_order:
  assumes "distinct (map fst r)"
  shows "map (restval_get r) (map fst r) = map snd r"
proof -
  have "map_of r (fst kv) = Some (snd kv)" if "kv \<in> set r" for kv
    using assms that by (cases kv) simp
  then show ?thesis by (simp add: restval_get_def)
qed

lemma dict_to_list_flat:
  assumes "map fst r = fieldnames"
  shows "dict_to_list r = Inr (map snd r)"
proof -
  have "distinct (map fst r)" using assms distinct_fieldnames by simp
  from values_in_key_order [OF this] assms show ?thesis
    by (simp add: dict_to_list_def list_all_iff)
qed

text \<open>With the \<open>weather\<close> key absent the default \<open>[{}]\<close> gives the three nulls.\<close>

lemma flatten_weather_absent:
  "map_of kvs ''weather'' = None \<Longrightarrow> get_weather (JObj kvs) k = Inr JNull"
  by (simp add: get_weather_def bind_exc_def)

section \<open>Properties of the Flattener\<close>

text \<open>
  C1, as the code has it. On every object whose parents \<open>sys\<close>, \<open>coord\<close>, \<open>main\<close>,
  \<open>wind\<close> and \<open>clouds\<close> are objects where present, and whose \<open>weather\<close> is a list
  starting with an object where present, \<open>flatten_weather_data\<close> does not raise and
  returns the record of the specification: exactly the 25 fields, in the fixed order,
  each the value the input holds at the field's path, unchanged, or null. A top-level
  value that is not an object raises AttributeError.
\<close>

theorem flatten_total_on_well_shaped:
  "(well_shaped data \<longrightarrow>
      flatten_weather_data now data = Inr (spec_flatten now data)
      \<and> map fst (spec_flatten now data) = fieldnames
      \<and> length (spec_flatten now data) = 25)
   \<and> (\<not> is_obj other \<longrightarrow> flatten_weather_data now other = Inl AttributeError)"
proof -
  have "length (spec_flatten now data) = 25"
    by (simp add: spec_flatten_def)
  then show ?thesis
    using flatten_refines [of data now] flatten_not_obj [of other now]
      spec_flatten_keys [of now data]
    by blast
qed

theorem flatten_total_on_well_shaped_witness:
  "well_shaped danang
   \<and> flatten_weather_data ''2026-11-03T09:30:00'' danang
       = Inr (spec_flatten ''2026-11-03T09:30:00'' danang)
   \<and> map fst (spec_flatten ''2026-11-03T09:30:00'' danang) = fieldnames
   \<and> length (spec_flatten ''2026-11-03T09:30:00'' danang) = 25
   \<and> \<not> is_obj (JArr [] :: string json)
   \<and> flatten_weather_data ''2026-11-03T09:30:00'' (JArr [] :: string json) = Inl AttributeError"
  using flatten_total_on_well_shaped [of danang "''2026-11-03T09:30:00''" "JArr []"]
    well_shaped_danang
  by simp

text \<open>
  A JSON array at the top level raises instead of giving a record of nulls, and a string
  under \<open>dt\<close> is passed on as it is, although \<open>api_timestamp\<close> is an integer field.
\<close>

theorem flatten_non_object_counterexample:
  "flatten_weather_data ''2026-11-03T09:30:00'' (JArr [] :: string json) = Inl AttributeError
   \<and> map_sum id (\<lambda>r. map_of r ''api_timestamp'')
        (flatten_weather_data ''2026-11-03T09:30:00'' (JObj [(''dt'', JStr ''noon'')] :: string json))
       = Inr (Some (JStr ''noon''))"
  by (simp add: flatten_weather_data_def get1_def get2_def get_weather_def bind_exc_def)

text \<open>
  C2. The claim wants three nulls for \<open>weather: []\<close>. The code takes element 0 of the
  empty list: on the input \<open>{"weather": []}\<close> it raises IndexError.
\<close>

theorem flatten_empty_weather_raises:
  "flatten_weather_data now (JObj [(''weather'', JArr [])]) = Inl IndexError"
  by (simp add: flatten_weather_data_def get1_def get2_def get_weather_def bind_exc_def)


text \<open>
  C9. Two runs of \<open>flatten_weather_data\<close> on the same input, at any two clock readings,
  end the same way, and when they return, their records are equal once the
  \<open>timestamp\<close> entry is taken out of both.
\<close>

theorem flatten_clock_only_timestamp:
  "untimed (flatten_weather_data t1 data) = untimed (flatten_weather_data t2 data)"
  by (simp add: flatten_weather_data_def untimed_def without_timestamp_def split: sum.splits)

text \<open>
  C10. The keys of every record that \<open>flatten_weather_data\<close> returns are the 25
  \<open>fieldnames\<close> of the Writer, in the same order, so the Writer finds no key outside
  its schema and takes the record's values as the row, one per column.
\<close>

theorem flatten_keys_match_fieldnames:
  assumes "flatten_weather_data now data = Inr r"
  shows "map fst r = fieldnames \<and> dict_to_list r = Inr (map snd r)"
  using flatten_keys [OF assms] dict_to_list_flat by blast

theorem flatten_keys_match_fieldnames_witness:
  "flatten_weather_data ''2026-11-03T09:30:00'' danang
     = Inr (spec_flatten ''2026-11-03T09:30:00'' danang)
   \<and> map fst (spec_flatten ''2026-11-03T09:30:00'' danang) = fieldnames
   \<and> dict_to_list (spec_flatten ''2026-11-03T09:30:00'' danang)
       = Inr (map snd (spec_flatten ''2026-11-03T09:30:00'' danang))"
  using flatten_keys_match_fieldnames [of "''2026-11-03T09:30:00''" danang
      "spec_flatten ''2026-11-03T09:30:00'' danang"]
    flatten_refines [OF well_shaped_danang]
  by simp

section \<open>Lemmas on the Fetcher\<close>

lemma fetch_body_transport:
  "urlopen_read P url = Inl e \<Longrightarrow>
   fetch_body P url w = (Inl e, w\<lparr>requests := requests w @ [url]\<rparr>)"
  by (simp add: fetch_body_def urlopen_def bind_exc_def)

lemma handler_not_URLError: "\<not> is_URLError e \<Longrightarrow> handler e w = (Raise e, w)"
  by (cases e) simp_all

lemma handler_files: "files (snd (handler e w)) = files w"
  by (cases e) simp_all

lemma handler_requests: "requests (snd (handler e w)) = requests w"
  by (cases e) simp_all

lemma handler_nonzero: "exit_code (fst (handler e w)) \<noteq> 0"
  by (cases e) simp_all

lemma fetch_one_request:
  "requests (snd (fetch_weather_data P url w)) = requests w @ [url]"
  by (simp add: fetch_weather_data_def fetch_body_def urlopen_def bind_exc_def
      handler_requests split: sum.splits option.splits)

section \<open>Lemmas on reading rows back\<close>

lemma read_unquoted_run:
  "\<not> list_ex special s \<Longrightarrow>
   read_record Unquoted cur (s @ t) = read_record Unquoted (cur @ s) t"
  by (induction s arbitrary: cur) (auto simp: special_def)

lemma read_start_plain:
  assumes "\<not> list_ex special s" and "s \<noteq> []"
  shows "read_record Start [] (s @ t) = read_record Unquoted s t"
proof -
  from assms(2) obtain c cs where s: "s = c # cs" by (cases s) auto
  with assms(1) have c: "\<not> special c" and cs: "\<not> list_ex special cs" by auto
  from c have "read_record Start [] (c # cs @ t) = read_record Unquoted [c] (cs @ t)"
    by (simp add: special_def)
  with read_unquoted_run [OF cs, of "[c]" t] show ?thesis by (simp add: s)
qed

lemma read_quoted_body:
  "read_record Quoted cur (concat (map (\<lambda>c. if c = dquote then [c, c] else [c]) s) @ dquote # t)
     = read_record AfterQuote (cur @ s) t"
  by (induction s arbitrary: cur) auto

lemma read_field_comma:
  "read_record Start [] (csv_quote s @ CHR '','' # t) = put_field s (read_record Start [] t)"
proof (cases "list_ex special s")
  case True
  have "read_record Start [] (csv_quote s @ CHR '','' # t)
      = read_record Quoted [] (concat (map (\<lambda>c. if c = dquote then [c, c] else [c]) s) @ dquote # CHR '','' # t)"
    using True by (simp add: csv_quote_def)
  also have "\<dots> = read_record AfterQuote s (CHR '','' # t)"
    using read_quoted_body [of "[]" s] by simp
  also have "\<dots> = put_field s (read_record Start [] t)"
    by (simp add: dquote_def)
  finally show ?thesis .
next
  case False
  show ?thesis
  proof (cases "s = []")
    case True
    then show ?thesis by (simp add: csv_quote_def dquote_def)
  next
    case nonempty: False
    from False have "read_record Start [] (csv_quote s @ CHR '','' # t)
        = read_record Unquoted s (CHR '','' # t)"
      using read_start_plain [OF False nonempty] by (simp add: csv_quote_def)
    then show ?thesis by simp
  qed
qed

lemma read_field_end:
  "read_record Start [] (csv_quote s @ crlf @ t) = Some ([s], t)"
proof (cases "list_ex special s")
  case True
  have "read_record Start [] (csv_quote s @ crlf @ t)
      = read_record Quoted [] (concat (map (\<lambda>c. if c = dquote then [c, c] else [c]) s) @ dquote # crlf @ t)"
    using True by (simp add: csv_quote_def)
  also have "\<dots> = read_record AfterQuote s (crlf @ t)"
    using read_quoted_body [of "[]" s] by simp
  also have "\<dots> = Some ([s], t)"
    by (simp add: dquote_def crlf_def)
  finally show ?thesis .
next
  case False
  show ?thesis
  proof (cases "s = []")
    case True
    then show ?thesis by (simp add: csv_quote_def dquote_def crlf_def)
  next
    case nonempty: False
    from False have "read_record Start [] (csv_quote s @ crlf @ t)
        = read_record Unquoted s (crlf @ t)"
      using read_start_plain [OF False nonempty] by (simp add: csv_quote_def)
    then show ?thesis by (simp add: crlf_def)
  qed
qed

lemma read_joined:
  "xs \<noteq> [] \<Longrightarrow>
   read_record Start [] (join_with '','' (map csv_quote xs) @ crlf @ t) = Some (xs, t)"
proof (induction xs)
  case Nil
  then show ?case by simp
next
  case (Cons x xs)
  show ?case
  proof (cases xs)
    case Nil
    then show ?thesis by (simp add: read_field_end)
  next
    case (Cons y ys)
    with Cons.IH have "read_record Start [] (join_with '','' (map csv_quote (y # ys)) @ crlf @ t)
        = Some (y # ys, t)" by simp
    then show ?thesis
      using read_field_comma [of x "join_with '','' (map csv_quote (y # ys)) @ crlf @ t"]
      by (simp add: Cons put_field_def)
  qed
qed

section \<open>Lemmas on the Writer\<close>

lemma cell_spec:
  "(case restval_get data k of JNull \<Rightarrow> [] | _ \<Rightarrow> py_str P (restval_get data k))
     = spec_cell P (map_of data k)"
proof (cases "map_of data k")
  case None
  then show ?thesis by (simp add: restval_get_def)
next
  case (Some v)
  then show ?thesis by (cases v) (simp_all add: restval_get_def)
qed

lemma cells_spec:
  "map (csv_field P) (map (restval_get data) fieldnames) = map csv_quote (spec_row P data)"
  by (simp add: spec_row_def csv_field_def cell_spec comp_def)

lemma spec_row_length: "length (spec_row P data) = 25"
  by (simp add: spec_row_def length_fieldnames)

lemma read_data_row:
  "read_record Start [] (data_row P data @ t) = Some (spec_row P data, t)"
proof -
  have "spec_row P data \<noteq> []"
    using spec_row_length [of P data] by auto
  from read_joined [OF this, of t] show ?thesis
    unfolding data_row_def writer_writerow_def cells_spec by simp
qed

lemma read_header:
  "read_record Start [] (writeheader P @ t) = Some (fieldnames, t)"
proof -
  have "fieldnames \<noteq> []"
    using length_fieldnames by auto
  from read_joined [OF this, of t] show ?thesis
    by (simp add: writeheader_def writer_writerow_def csv_field_def comp_def)
qed

lemma read_three_rows:
  "read_records 3 (writeheader P @ data_row P d1 @ data_row P d2)
     = Some ([fieldnames, spec_row P d1, spec_row P d2], [])"
  using read_data_row [of P d2 "[]"]
  by (simp add: numeral_3_eq_3 read_header read_data_row)

lemma writeheader_text: "writeheader P = join_with '','' fieldnames @ crlf"
  by (simp add: writeheader_def writer_writerow_def fieldnames_def csv_field_def csv_quote_def
      special_def dquote_def)

lemma dict_to_list_keys:
  "set (map fst data) \<subseteq> set fieldnames \<Longrightarrow>
   dict_to_list data = Inr (map (restval_get data) fieldnames)"
  by (auto simp: dict_to_list_def list_all_iff)

lemma with_body_ok:
  assumes "set (map fst data) \<subseteq> set fieldnames" and "encodable P (writeheader P)"
    and "encodable P (data_row P data)"
  shows "with_body P file_exists data
     = ((if file_exists then [] else writeheader P) @ data_row P data, None)"
  using assms by (simp add: with_body_def dict_to_list_keys data_row_def)

lemma append_ok:
  assumes "open_error P path = None" and "\<not> device_full P path"
    and "set (map fst data) \<subseteq> set fieldnames"
    and "encodable P (writeheader P)" and "encodable P (data_row P data)"
    and "stdout_encodable P (''Weather data appended to '' @ path)"
  shows "append_to_csv P data path w =
     (Return (),
      w\<lparr>files := (files w)(path \<mapsto>
                   (case files w path of None \<Rightarrow> writeheader P | Some text \<Rightarrow> text)
                   @ data_row P data),
        stdout := stdout w @ [''Weather data appended to '' @ path]\<rparr>)"
  using assms(1,2,6)
  by (simp add: append_to_csv_def Let_def with_body_ok [OF assms(3,4,5)] py_print_def
      split: option.splits)

text \<open>When an append returns, the row went into the file after the text that was there.\<close>

lemma append_returns:
  assumes "append_to_csv P data path w = (Return (), w')"
  shows "files w' path
     = Some ((case files w path of None \<Rightarrow> writeheader P | Some text \<Rightarrow> text) @ data_row P data)"
  using assms
  by (auto simp: append_to_csv_def Let_def with_body_def py_print_def dict_to_list_def
      data_row_def split: option.splits if_splits sum.splits prod.splits)

lemma ascii_only_append [simp]: "ascii_only (a @ b) = (ascii_only a \<and> ascii_only b)"
  by (simp add: ascii_only_def)

lemma ascii_only_Cons [simp]: "ascii_only (c # cs) = (of_char c < (128 :: nat) \<and> ascii_only cs)"
  by (simp add: ascii_only_def)

lemma ascii_only_Nil [simp]: "ascii_only []"
  by (simp add: ascii_only_def)

lemma data_row_danang:
  "data_row lab danang_reply =
     ''2026-11-03T09:30:00,1700000000,42,Danang,VN,16.05,108.2,25200,800,Clear,clear sky,30.1,33.0,,,1008,70,,,10000,2.5,90,5,1,2'' @ crlf"
  by (simp add: data_row_def writer_writerow_def danang_reply_def spec_flatten_def
      fieldnames_def restval_get_def spec_get1_def spec_get2_def spec_weather_def member_of_def
      csv_field_def csv_quote_def special_def dquote_def danang_def lab_def str_int_def
      str_nat.simps digit_char_def)

lemma data_row_washington:
  "data_row lab washington_reply =
     ''2026-11-03T09:40:00,1700000600,,'' @ [dquote] @ ''Washington, '' @ [dquote, dquote]
       @ ''D.C.'' @ [dquote, dquote, dquote] @ '',,38.9,-77.04,-18000,,,,,,,,,,,,,,,,,'' @ crlf"
  by (simp add: data_row_def writer_writerow_def washington_reply_def spec_flatten_def
      fieldnames_def restval_get_def spec_get1_def spec_get2_def spec_weather_def member_of_def
      csv_field_def csv_quote_def special_def dquote_def washington_def lab_def str_int_def
      str_nat.simps digit_char_def)

lemma spec_row_danang:
  "spec_row lab danang_reply =
     [''2026-11-03T09:30:00'', ''1700000000'', ''42'', ''Danang'', ''VN'', ''16.05'', ''108.2'',
      ''25200'', ''800'', ''Clear'', ''clear sky'', ''30.1'', ''33.0'', [], [], ''1008'', ''70'', [],
      [], ''10000'', ''2.5'', ''90'', ''5'', ''1'', ''2'']"
  by (simp add: spec_row_def danang_reply_def spec_flatten_def fieldnames_def spec_get1_def
      spec_get2_def spec_weather_def member_of_def danang_def lab_def str_int_def
      str_nat.simps digit_char_def)

lemma spec_row_washington:
  "spec_row lab washington_reply =
     [''2026-11-03T09:40:00'', ''1700000600'', [], ''Washington, '' @ [dquote] @ ''D.C.'' @ [dquote],
      [], ''38.9'', ''-77.04'', ''-18000'', [], [], [], [], [], [], [], [], [], [], [], [], [], [],
      [], [], []]"
  by (simp add: spec_row_def washington_reply_def spec_flatten_def fieldnames_def spec_get1_def
      spec_get2_def spec_weather_def member_of_def washington_def lab_def str_int_def
      str_nat.simps digit_char_def)

lemma lab_takes_header: "encodable lab (writeheader lab)"
  by (simp add: writeheader_text) (simp add: lab_def fieldnames_def crlf_def)

lemma lab_takes_danang: "encodable lab (data_row lab danang_reply)"
  by (simp add: data_row_danang) (simp add: lab_def crlf_def)

lemma lab_takes_washington: "encodable lab (data_row lab washington_reply)"
  by (simp add: data_row_washington) (simp add: lab_def crlf_def dquote_def)

lemma spec_row_nth:
  "i < 25 \<Longrightarrow> spec_row P data ! i = spec_cell P (map_of data (fieldnames ! i))"
  by (simp add: spec_row_def length_fieldnames)

lemma spec_cell_null: "flat_get data k = JNull \<Longrightarrow> spec_cell P (map_of data k) = []"
  by (cases "map_of data k") (simp_all add: flat_get_def)

lemma lab_run:
  assumes "set (map fst data) \<subseteq> set fieldnames" and "ascii_only (data_row lab data)"
  shows "append_to_csv lab data ''out.csv'' w =
     (Return (),
      w\<lparr>files := (files w)(''out.csv'' \<mapsto>
                   (case files w ''out.csv'' of None \<Rightarrow> writeheader lab | Some text \<Rightarrow> text)
                   @ data_row lab data),
        stdout := stdout w @ [''Weather data appended to out.csv'']\<rparr>)"
proof -
  have 1: "open_error lab ''out.csv'' = None" "\<not> device_full lab ''out.csv''"
    "stdout_encodable lab (''Weather data appended to '' @ ''out.csv'')"
    by (simp_all add: lab_def nowhere_def)
  have 2: "encodable lab (data_row lab data)"
    using assms(2) by (simp add: lab_def)
  from append_ok [OF 1(1) 1(2) assms(1) lab_takes_header 2 1(3), of w] show ?thesis
    by simp
qed

lemma str_nat_2026: "str_nat 2026 = ''2026''"
  by (simp add: str_nat.simps digit_char_def)

text \<open>
  A row that the file's encoding cannot encode: the header is written, the row raises,
  and the next call appends its row without a second header.
\<close>

lemma unencodable_row_keeps_header:
  "append_to_csv lab accented_reply ''out.csv'' blank
     = (Raise UnicodeEncodeError,
        blank\<lparr>files := [''out.csv'' \<mapsto> join_with '','' fieldnames @ crlf]\<rparr>)"
proof -
  have "\<not> encodable lab (writer_writerow lab (map (restval_get accented_reply) fieldnames))"
    by (simp add: writer_writerow_def accented_reply_def spec_flatten_def
      fieldnames_def restval_get_def spec_get1_def spec_get2_def spec_weather_def member_of_def
      csv_field_def csv_quote_def special_def dquote_def lab_def crlf_def)
  moreover have "dict_to_list accented_reply = Inr (map (restval_get accented_reply) fieldnames)"
    by (rule dict_to_list_keys) (simp add: accented_reply_def spec_flatten_keys)
  ultimately have body: "with_body lab False accented_reply
      = (writeheader lab, Some UnicodeEncodeError)"
    using lab_takes_header by (simp add: with_body_def)
  have dev: "open_error lab ''out.csv'' = None" "\<not> device_full lab ''out.csv''"
    by (simp_all add: lab_def nowhere_def)
  show ?thesis
    by (simp add: append_to_csv_def Let_def blank_def body dev writeheader_text)
qed

section \<open>Properties of the Fetcher\<close>

text \<open>
  C3, as the code has it. A URLError from the request is handled in the Fetcher: the line
  \<open>Error fetching data: ...\<close> goes to the error stream and the process is ended with
  exit code 1. Every other exception leaves \<open>fetch_weather_data\<close> and reaches its
  caller, with nothing written: any other error of the transport, UnicodeDecodeError for
  a body that is not UTF-8, JSONDecodeError for a body that is not JSON. However the
  Fetcher is left, exactly one request has gone out: there is no retry.
\<close>

theorem fetch_failure_handling:
  "(urlopen_read P1 url1 = Inl (URLError msg) \<longrightarrow>
      fetch_weather_data P1 url1 w1
        = (SysExit 1,
           w1\<lparr>stderr := stderr w1 @ [''Error fetching data: '' @ msg],
              requests := requests w1 @ [url1]\<rparr>)
      \<and> exit_code (fst (fetch_weather_data P1 url1 w1)) \<noteq> 0)
   \<and> (urlopen_read P2 url2 = Inl e \<and> \<not> is_URLError e \<longrightarrow>
      fetch_weather_data P2 url2 w2 = (Raise e, w2\<lparr>requests := requests w2 @ [url2]\<rparr>))
   \<and> (urlopen_read P3 url3 = Inr body3 \<and> decode_utf8 P3 body3 = None \<longrightarrow>
      fetch_weather_data P3 url3 w3
        = (Raise UnicodeDecodeError, w3\<lparr>requests := requests w3 @ [url3]\<rparr>))
   \<and> (urlopen_read P4 url4 = Inr body4 \<and> decode_utf8 P4 body4 = Some text4
        \<and> json_loads P4 text4 = None \<longrightarrow>
      fetch_weather_data P4 url4 w4
        = (Raise JSONDecodeError, w4\<lparr>requests := requests w4 @ [url4]\<rparr>))
   \<and> requests (snd (fetch_weather_data P5 url5 w5)) = requests w5 @ [url5]"
  by (simp add: fetch_one_request)
    (simp add: fetch_weather_data_def fetch_body_def urlopen_def bind_exc_def
      handler_not_URLError)

theorem fetch_failure_handling_witness:
  "fetch_weather_data offline ''http://host/'' blank
     = (SysExit 1,
        blank\<lparr>stderr :=
                [''Error fetching data: <urlopen error [Errno 111] Connection refused>''],
              requests := [''http://host/'']\<rparr>)
   \<and> fetch_weather_data reset_by_peer ''http://host/'' blank
     = (Raise (OSError ''[Errno 104] Connection reset by peer''),
        blank\<lparr>requests := [''http://host/'']\<rparr>)
   \<and> fetch_weather_data latin1_page ''http://host/'' blank
     = (Raise UnicodeDecodeError, blank\<lparr>requests := [''http://host/'']\<rparr>)
   \<and> fetch_weather_data html_page ''http://host/'' blank
     = (Raise JSONDecodeError, blank\<lparr>requests := [''http://host/'']\<rparr>)
   \<and> requests (snd (fetch_weather_data lab ''http://host/'' blank)) = [''http://host/'']"
  using fetch_failure_handling [of offline "''http://host/''"
      "''<urlopen error [Errno 111] Connection refused>''" blank
      reset_by_peer "''http://host/''" "OSError ''[Errno 104] Connection reset by peer''" blank
      latin1_page "''http://host/''" "''{}''" blank
      html_page "''http://host/''" "''<html>''" "''<html>''" blank
      lab "''http://host/''" blank]
  by (simp add: offline_def reset_by_peer_def latin1_page_def html_page_def lab_def
      refuses_def serves_def serves_error_def loads_empty_object_def blank_def)

text \<open>
  A server that answers with a page of HTML: \<open>json.loads\<close> raises JSONDecodeError, the
  \<open>except URLError\<close> clause does not catch it, and it leaves the Fetcher with nothing
  written to the error stream.
\<close>

theorem fetch_non_json_counterexample:
  "fetch_weather_data html_page ''http://host/'' blank
     = (Raise JSONDecodeError, blank\<lparr>requests := [''http://host/'']\<rparr>)"
  by (simp add: fetch_weather_data_def fetch_body_def urlopen_def bind_exc_def html_page_def
      lab_def serves_def loads_empty_object_def blank_def)

text \<open>
  C8. When the request fails in the transport, whatever the exception, the process ends
  with a non-zero exit code and the files are those from before the run: none created,
  none changed.
\<close>

theorem transport_failure_writes_nothing:
  assumes "urlopen_read P (api_url P) = Inl e"
  shows "exit_code (fst (main P w)) \<noteq> 0 \<and> files (snd (main P w)) = files w"
proof (cases "stdout_encodable P ''Fetching weather data...''")
  case False
  then show ?thesis
    by (simp add: main_def py_print_def)
next
  case True
  define w1 where "w1 = w\<lparr>stdout := stdout w @ [''Fetching weather data...'']\<rparr>"
  have body: "fetch_body P (api_url P) w1
      = (Inl e, w1\<lparr>requests := requests w1 @ [api_url P]\<rparr>)"
    by (rule fetch_body_transport [OF assms])
  have m: "main P w = handler e (w1\<lparr>requests := requests w1 @ [api_url P]\<rparr>)"
    using True body
    by (cases e) (simp_all add: main_def py_print_def fetch_weather_data_def w1_def)
  show ?thesis
    unfolding m by (simp add: handler_nonzero handler_files w1_def)
qed

theorem transport_failure_writes_nothing_witness:
  "urlopen_read offline (api_url offline)
     = Inl (URLError ''<urlopen error [Errno 111] Connection refused>'')
   \<and> exit_code (fst (main offline blank)) \<noteq> 0
   \<and> files (snd (main offline blank)) = files blank"
  using transport_failure_writes_nothing [of offline
      "URLError ''<urlopen error [Errno 111] Connection refused>''" blank]
  by (simp add: offline_def refuses_def)

section \<open>Properties of the Writer and of the output path\<close>

text \<open>
  C4. On a path that holds no file, after two calls of \<open>append_to_csv\<close> in a row that
  both return, the file holds the header row of the 25 field names, the row of the first
  record and the row of the second, in that order and nothing else: read back as CSV it
  is exactly three records, the field names and the fields of the two records.
\<close>

theorem header_once:
  assumes "files w path = None"
    and "append_to_csv P d1 path w = (Return (), w1)"
    and "append_to_csv P d2 path w1 = (Return (), w2)"
  shows "files w2 path
       = Some (join_with '','' fieldnames @ crlf @ data_row P d1 @ data_row P d2)
     \<and> read_records 3 (join_with '','' fieldnames @ crlf @ data_row P d1 @ data_row P d2)
       = Some ([fieldnames, spec_row P d1, spec_row P d2], [])"
proof -
  from append_returns [OF assms(2)] assms(1)
  have 1: "files w1 path = Some (writeheader P @ data_row P d1)" by simp
  from append_returns [OF assms(3)] 1
  have 2: "files w2 path = Some (writeheader P @ data_row P d1 @ data_row P d2)" by simp
  from 2 read_three_rows [of P d1 d2] show ?thesis
    by (simp add: writeheader_text)
qed

theorem header_once_witness:
  "\<exists>w1 w2. append_to_csv lab danang_reply ''out.csv'' blank = (Return (), w1)
     \<and> append_to_csv lab washington_reply ''out.csv'' w1 = (Return (), w2)
     \<and> files w2 ''out.csv''
         = Some (join_with '','' fieldnames @ crlf
            @ ''2026-11-03T09:30:00,1700000000,42,Danang,VN,16.05,108.2,25200,800,Clear,clear sky,30.1,33.0,,,1008,70,,,10000,2.5,90,5,1,2'' @ crlf
            @ ''2026-11-03T09:40:00,1700000600,,'' @ [dquote] @ ''Washington, '' @ [dquote, dquote]
       @ ''D.C.'' @ [dquote, dquote, dquote] @ '',,38.9,-77.04,-18000,,,,,,,,,,,,,,,,,'' @ crlf)
     \<and> read_records 3 (join_with '','' fieldnames @ crlf
            @ ''2026-11-03T09:30:00,1700000000,42,Danang,VN,16.05,108.2,25200,800,Clear,clear sky,30.1,33.0,,,1008,70,,,10000,2.5,90,5,1,2'' @ crlf
            @ ''2026-11-03T09:40:00,1700000600,,'' @ [dquote] @ ''Washington, '' @ [dquote, dquote]
       @ ''D.C.'' @ [dquote, dquote, dquote] @ '',,38.9,-77.04,-18000,,,,,,,,,,,,,,,,,'' @ crlf)
         = Some ([fieldnames,
            [''2026-11-03T09:30:00'', ''1700000000'', ''42'', ''Danang'', ''VN'', ''16.05'', ''108.2'',
      ''25200'', ''800'', ''Clear'', ''clear sky'', ''30.1'', ''33.0'', [], [], ''1008'', ''70'', [],
      [], ''10000'', ''2.5'', ''90'', ''5'', ''1'', ''2''],
            [''2026-11-03T09:40:00'', ''1700000600'', [], ''Washington, '' @ [dquote] @ ''D.C.'' @ [dquote],
      [], ''38.9'', ''-77.04'', ''-18000'', [], [], [], [], [], [], [], [], [], [], [], [], [], [],
      [], [], []]], [])"
proof -
  have fresh: "files blank ''out.csv'' = None"
    by (simp add: blank_def)
  obtain w1 where r1: "append_to_csv lab danang_reply ''out.csv'' blank = (Return (), w1)"
    using lab_run [of danang_reply blank] lab_takes_danang
    by (simp add: danang_reply_def spec_flatten_keys lab_def)
  obtain w2 where r2: "append_to_csv lab washington_reply ''out.csv'' w1 = (Return (), w2)"
    using lab_run [of washington_reply w1] lab_takes_washington
    by (simp add: washington_reply_def spec_flatten_keys lab_def)
  from header_once [OF fresh r1 r2] r1 r2 show ?thesis
    by (simp add: data_row_danang data_row_washington spec_row_danang spec_row_washington)
qed

text \<open>
  C7. Every row that \<open>append_to_csv\<close> has written stands after the text the file had
  (the header, for a new file) and reads back as 25 fields; field \<open>i\<close> is the value the
  record holds under entry \<open>i\<close> of \<open>fieldnames\<close>, whatever keys the record has: its
  text for a string, its printed form for a number, and the empty field when the value is
  null or the key is missing.
\<close>

theorem row_in_header_order:
  assumes "append_to_csv P data path w = (Return (), w')"
  shows "files w' path
       = Some ((case files w path of None \<Rightarrow> writeheader P | Some text \<Rightarrow> text)
           @ data_row P data)
     \<and> read_record Start [] (data_row P data) = Some (spec_row P data, [])
     \<and> length (spec_row P data) = 25
     \<and> (\<forall>i<25. spec_row P data ! i = spec_cell P (map_of data (fieldnames ! i)))
     \<and> (\<forall>i<25. flat_get data (fieldnames ! i) = JNull \<longrightarrow> spec_row P data ! i = [])"
  using append_returns [OF assms] read_data_row [of P data "[]"]
  by (simp add: spec_row_length spec_row_nth spec_cell_null)

theorem row_in_header_order_witness:
  "append_to_csv lab washington_reply ''out.csv'' blank
     = (Return (),
        blank\<lparr>files := [''out.csv'' \<mapsto> join_with '','' fieldnames @ crlf
                  @ ''2026-11-03T09:40:00,1700000600,,'' @ [dquote] @ ''Washington, '' @ [dquote, dquote]
       @ ''D.C.'' @ [dquote, dquote, dquote] @ '',,38.9,-77.04,-18000,,,,,,,,,,,,,,,,,'' @ crlf],
              stdout := [''Weather data appended to out.csv'']\<rparr>)
   \<and> read_record Start []
        (''2026-11-03T09:40:00,1700000600,,'' @ [dquote] @ ''Washington, '' @ [dquote, dquote]
       @ ''D.C.'' @ [dquote, dquote, dquote] @ '',,38.9,-77.04,-18000,,,,,,,,,,,,,,,,,'' @ crlf)
     = Some ([''2026-11-03T09:40:00'', ''1700000600'', [], ''Washington, '' @ [dquote] @ ''D.C.'' @ [dquote],
      [], ''38.9'', ''-77.04'', ''-18000'', [], [], [], [], [], [], [], [], [], [], [], [], [], [],
      [], [], []], [])
   \<and> length (spec_row lab washington_reply) = 25
   \<and> spec_row lab washington_reply ! 2 = []"
proof -
  have run: "append_to_csv lab washington_reply ''out.csv'' blank
      = (Return (),
         blank\<lparr>files := [''out.csv'' \<mapsto> join_with '','' fieldnames @ crlf
                   @ data_row lab washington_reply],
               stdout := [''Weather data appended to out.csv'']\<rparr>)"
    using lab_run [of washington_reply blank] lab_takes_washington
    by (simp add: washington_reply_def spec_flatten_keys lab_def blank_def writeheader_text)
  from row_in_header_order [OF run] run show ?thesis
    by (simp add: data_row_washington spec_row_washington)
qed

text \<open>
  C6, as the code has it. When \<open>CSV_OUTPUT_PATH\<close> is set to a non-empty value, that
  value is the target path, unchanged. When it is unset, or set to the empty string, the
  path is the year, \<open>lat\<close> and \<open>lon\<close> of the flattened record as Python prints them,
  joined by hyphens, with \<open>.csv\<close> at the end.
\<close>

theorem csv_path_resolution:
  "(getenv P1 ''CSV_OUTPUT_PATH'' = Some path \<and> path \<noteq> [] \<longrightarrow>
      csv_path_of P1 flat1 = path)
   \<and> (getenv P2 ''CSV_OUTPUT_PATH'' = None \<or> getenv P2 ''CSV_OUTPUT_PATH'' = Some [] \<longrightarrow>
      csv_path_of P2 flat2
        = str_nat (now_year P2) @ ''-'' @ py_str P2 (flat_get flat2 ''lat'') @ ''-''
          @ py_str P2 (flat_get flat2 ''lon'') @ ''.csv'')"
  by (auto simp: csv_path_of_def get_csv_filename_def Let_def)

theorem csv_path_resolution_witness:
  "csv_path_of path_configured danang_reply = ''data/danang.csv''
   \<and> csv_path_of lab danang_reply = ''2026-16.05-108.2.csv''"
  using csv_path_resolution [of path_configured "''data/danang.csv''" danang_reply
      lab danang_reply]
  by (simp add: path_configured_def lab_def danang_reply_def spec_flatten_def flat_get_def
      danang_def spec_get1_def spec_get2_def member_of_def str_nat_2026)

text \<open>
  With \<open>CSV_OUTPUT_PATH\<close> set to the empty string the variable is set, yet its value is
  not the target path: the computed name is.
\<close>

theorem csv_path_set_empty_counterexample:
  "getenv path_set_empty ''CSV_OUTPUT_PATH'' = Some []
   \<and> csv_path_of path_set_empty danang_reply = ''2026-16.05-108.2.csv''"
  by (simp add: csv_path_of_def get_csv_filename_def Let_def path_set_empty_def lab_def
      danang_reply_def spec_flatten_def flat_get_def danang_def spec_get1_def spec_get2_def
      member_of_def str_nat_2026)

end
